theory Spec2Isabelle
  imports Complex_Main "HOL-Library.Sublist" "HOL-Library.Char_ord" "HOL-Library.List_Lexorder"
begin

section \<open>Values shared by the two resources\<close>

text \<open>
  An attribute value of the host's resource data is a string (\<open>schema.TypeString\<close>) or
  an integer (\<open>schema.TypeInt\<close>, Go's \<open>int\<close>). The same two shapes are the arguments
  that the source hands to \<open>fmt.Errorf\<close>.
\<close>

datatype val = S string | I int

text \<open>
  Errors are values. \<open>Errorf format args\<close> is \<open>fmt.Errorf(format, args...)\<close>: the
  format string is the literal of the source and the arguments are kept unrendered, in
  the order the source passes them; an underlying error is passed by its message.
  \<open>ImportAsExistsError resourceName id\<close> is \<open>tf.ImportAsExistsError\<close>.
\<close>

datatype error =
    Errorf string "val list"
  | ImportAsExistsError string string

text \<open>
  What a CRUD function does: it returns \<open>nil\<close> (\<open>OK\<close>), returns an error, or panics
  (a nil pointer dereference or a failed type assertion of the source).
\<close>

datatype outcome = OK | Failed error | Panic

subsection \<open>schema.ResourceData\<close>

record ResourceData =
  Id :: string
  IsNewResource :: bool
  attrs :: "string \<rightharpoonup> val"

text \<open>
  \<open>d.Get(key).(string)\<close> and \<open>d.Get(key).(int)\<close>: an attribute that is not set reads as
  the zero value of its type.
\<close>

definition Get_string :: "ResourceData \<Rightarrow> string \<Rightarrow> string" where
  "Get_string d key = (case attrs d key of Some (S s) \<Rightarrow> s | _ \<Rightarrow> [])"

definition Get_int :: "ResourceData \<Rightarrow> string \<Rightarrow> int" where
  "Get_int d key = (case attrs d key of Some (I n) \<Rightarrow> n | _ \<Rightarrow> 0)"

definition SetId :: "ResourceData \<Rightarrow> string \<Rightarrow> ResourceData" where
  "SetId d v = d\<lparr>Id := v\<rparr>"

text \<open>
  \<open>d.Set(key, value)\<close>. The source passes plain values and \<open>*string\<close> pointers; a nil
  pointer (\<open>None\<close>) removes the attribute.
\<close>

definition Set_attr :: "ResourceData \<Rightarrow> string \<Rightarrow> val option \<Rightarrow> ResourceData" where
  "Set_attr d key value = d\<lparr>attrs := (attrs d)(key := value)\<rparr>"

subsection \<open>autorest.Response and utils.ResponseWasNotFound\<close>

text \<open>
  An \<open>autorest.Response\<close> embeds a \<open>*http.Response\<close>: \<open>None\<close> when that pointer is nil,
  otherwise the status code.
\<close>

type_synonym Response = "nat option"

text \<open>
  Modelled from the spec: \<open>utils.ResponseWasNotFound\<close> is not among the source files;
  the adapters call it to learn whether "the remote API reports not-found", which is
  the HTTP status 404 of the response.
\<close>

definition ResponseWasNotFound :: "Response \<Rightarrow> bool" where
  "ResponseWasNotFound resp = (resp = Some 404)"

section \<open>Schema declarations\<close>

datatype ValueType = TypeString | TypeInt

type_synonym SchemaValidateFunc = "val \<Rightarrow> string \<Rightarrow> string list \<times> error list"

record Schema =
  Type :: ValueType
  Required :: bool
  ForceNew :: bool
  ValidateFunc :: "SchemaValidateFunc option"

text \<open>The CRUD functions of the two files, as the entries of a \<open>schema.Resource\<close> name them.\<close>

datatype crud =
    FabricCreate | FabricRead | FabricDelete
  | CounterCreateUpdate | CounterRead | CounterDelete

record ResourceTimeout =
  timeout_Create :: nat
  timeout_Read :: nat
  timeout_Update :: nat
  timeout_Delete :: nat

record Resource =
  Create :: "crud option"
  Read :: "crud option"
  Update :: "crud option"
  Delete :: "crud option"
  Timeouts :: "ResourceTimeout option"
  Schema :: "(string \<times> Schema) list"

subsection \<open>The validators of the host library that the schemas use\<close>

definition MaxInt32 :: int where
  "MaxInt32 = 2147483647"

text \<open>\<open>validation.IntBetween(min, max)\<close>: no warnings; an error for a value that is not
  an int, and an error for an int outside the closed range.\<close>

definition IntBetween :: "int \<Rightarrow> int \<Rightarrow> SchemaValidateFunc" where
  "IntBetween lo hi i k =
     (case i of
        I v \<Rightarrow>
          if v < lo \<or> v > hi
          then ([], [Errorf ''expected %s to be in the range (%d - %d), got %d'' [S k, I lo, I hi, I v]])
          else ([], [])
      | S s \<Rightarrow> ([], [Errorf ''expected type of %s to be int'' [S k]]))"

text \<open>\<open>validation.StringIsNotEmpty\<close>.\<close>

definition StringIsNotEmpty :: SchemaValidateFunc where
  "StringIsNotEmpty i k =
     (case i of
        S v \<Rightarrow>
          if v = [] then ([], [Errorf ''expected %q to not be an empty string, got %v'' [S k, S v]])
          else ([], [])
      | I n \<Rightarrow> ([], [Errorf ''expected type of %q to be string'' [S k]]))"

subsection \<open>The schema of the Windows performance counter data source\<close>

text \<open>
  \<open>azure.SchemaResourceGroupName()\<close> and \<open>ValidateAzureRmLogAnalyticsWorkspaceName\<close> are
  not among the source files: the resource takes them as parameters. The
  \<open>DiffSuppressFunc\<close> of \<open>workspace_name\<close> plays no part in what follows and is left out.
\<close>

definition resourceArmLogAnalyticsDataSourceWindowsPerformanceCounter ::
  "Schema \<Rightarrow> SchemaValidateFunc \<Rightarrow> Resource" where
  "resourceArmLogAnalyticsDataSourceWindowsPerformanceCounter SchemaResourceGroupName
       ValidateAzureRmLogAnalyticsWorkspaceName =
     \<lparr>Create = Some CounterCreateUpdate,
      Read = Some CounterRead,
      Update = Some CounterCreateUpdate,
      Delete = Some CounterDelete,
      Timeouts = Some \<lparr>timeout_Create = 30, timeout_Read = 5,
                       timeout_Update = 30, timeout_Delete = 30\<rparr>,
      Schema =
        [(''name'',
            \<lparr>Type = TypeString, Required = True, ForceNew = True,
             ValidateFunc = Some StringIsNotEmpty\<rparr>),
         (''resource_group_name'', SchemaResourceGroupName),
         (''workspace_name'',
            \<lparr>Type = TypeString, Required = True, ForceNew = True,
             ValidateFunc = Some ValidateAzureRmLogAnalyticsWorkspaceName\<rparr>),
         (''counter_name'',
            \<lparr>Type = TypeString, Required = True, ForceNew = False,
             ValidateFunc = Some StringIsNotEmpty\<rparr>),
         (''instance_name'',
            \<lparr>Type = TypeString, Required = True, ForceNew = False,
             ValidateFunc = Some StringIsNotEmpty\<rparr>),
         (''interval_seconds'',
            \<lparr>Type = TypeInt, Required = True, ForceNew = False,
             ValidateFunc = Some (IntBetween 10 MaxInt32)\<rparr>),
         (''object_name'',
            \<lparr>Type = TypeString, Required = True, ForceNew = False,
             ValidateFunc = Some StringIsNotEmpty\<rparr>)]\<rparr>"

text \<open>
  Validation of one attribute of a configuration, as the host runs it before any CRUD
  function: the attribute's \<open>ValidateFunc\<close> applied to the configured value; the
  errors it reports (none when the attribute has no validator or is not declared).
\<close>

definition validate_attr :: "Resource \<Rightarrow> string \<Rightarrow> val \<Rightarrow> error list" where
  "validate_attr r key v =
     (case map_of (Schema r) key of
        None \<Rightarrow> []
      | Some s \<Rightarrow> (case ValidateFunc s of None \<Rightarrow> [] | Some f \<Rightarrow> snd (f v key)))"

section \<open>The replication fabric resource\<close>

subsection \<open>Its schema\<close>






subsection \<open>The remote side\<close>

text \<open>
  The part of \<open>siterecovery.Fabric\<close> that the adapter reads: the embedded response, the
  ID and name pointers, and the custom details inside the properties (a nil pointer or
  nil interface is \<open>None\<close>). \<open>AsAzureFabricSpecificDetails\<close> answers \<open>true\<close> for the
  first constructor only, which carries the \<open>Location\<close> pointer.
\<close>

datatype FabricSpecificDetails =
    AzureFabricSpecificDetails "string option"
  | OtherFabricSpecificDetails

record FabricProperties =
  CustomDetails :: "FabricSpecificDetails option"

record Fabric =
  fabric_Response :: Response
  fabric_Properties :: "FabricProperties option"
  fabric_ID :: "string option"
  fabric_Name :: "string option"

datatype InstanceType =
    InstanceTypeAzure | InstanceTypeFabricSpecificCreationInput | InstanceTypeVMwareV2

text \<open>The custom details of a \<open>siterecovery.FabricCreationInput\<close>.\<close>

record AzureFabricCreationInput =
  input_Location :: "string option"
  input_InstanceType :: InstanceType

text \<open>
  The remote calls of the fabric adapter, each with the answer it got, in the order
  they were made. The first three arguments of \<open>FGet\<close>, \<open>FCreate\<close> and \<open>FDelete\<close> are
  the resource group and the vault the client was made for, and the fabric name; the
  last argument of every event is the returned \<open>error\<close> (\<open>None\<close> for nil).
\<close>

datatype fabric_event =
    FGet string string string Fabric "string option"
  | FCreate string string string AzureFabricCreationInput "string option"
  | FWaitForCompletionRef "string option"
  | FResult Fabric "string option"
  | FDelete string string string "string option"
  | FDeleteResult Response "string option"

text \<open>
  What the adapter is given besides the resource data: the provider's switch
  \<open>requireResourcesToBeImported\<close>, the functions \<open>parseAzureResourceID\<close> and
  \<open>azureRMNormalizeLocation\<close> (not among the source files, hence parameters), and the
  remote client. The remote side is any function from the calls made so far to the
  answer of the next call, so nothing is assumed about how it behaves.
\<close>

record ResourceID =
  SubscriptionID :: string
  ResourceGroup :: string
  Provider :: string
  Path :: "string \<rightharpoonup> string"

record ArmClient =
  requireResourcesToBeImported :: bool
  parseAzureResourceID :: "string \<Rightarrow> error + ResourceID"
  azureRMNormalizeLocation :: "string \<Rightarrow> string"
  client_Get :: "fabric_event list \<Rightarrow> string \<Rightarrow> string \<Rightarrow> string \<Rightarrow> Fabric \<times> string option"
  client_Create :: "fabric_event list \<Rightarrow> string \<Rightarrow> string \<Rightarrow> string
                      \<Rightarrow> AzureFabricCreationInput \<Rightarrow> string option"
  future_WaitForCompletionRef :: "fabric_event list \<Rightarrow> string option"
  future_Result :: "fabric_event list \<Rightarrow> Fabric \<times> string option"
  client_Delete :: "fabric_event list \<Rightarrow> string \<Rightarrow> string \<Rightarrow> string \<Rightarrow> string option"
  future_DeleteResult :: "fabric_event list \<Rightarrow> Response \<times> string option"

text \<open>Indexing a Go map: a missing key reads as the empty string.\<close>

definition Path_at :: "ResourceID \<Rightarrow> string \<Rightarrow> string" where
  "Path_at rid key = (case Path rid key of None \<Rightarrow> [] | Some v \<Rightarrow> v)"

text \<open>The message of an error that is present (\<open>%+v\<close> of a non-nil error).\<close>

definition msg :: "string option \<Rightarrow> val" where
  "msg err = (case err of None \<Rightarrow> S [] | Some e \<Rightarrow> S e)"

subsection \<open>Read\<close>

definition resourceArmRecoveryServicesReplicationFabricRead ::
  "ArmClient \<Rightarrow> ResourceData \<Rightarrow> fabric_event list
     \<Rightarrow> outcome \<times> ResourceData \<times> fabric_event list" where
  "resourceArmRecoveryServicesReplicationFabricRead meta d tr =
     (case parseAzureResourceID meta (Id d) of
        Inl err \<Rightarrow> (Failed err, d, tr)
      | Inr rid \<Rightarrow>
          (let vault = Path_at rid ''vaults'';
               name = Path_at rid ''replicationFabrics'';
               resourceGroup = ResourceGroup rid
           in case client_Get meta tr resourceGroup vault name of
             (resp, err) \<Rightarrow>
               (let tr1 = tr @ [FGet resourceGroup vault name resp err]
                in if err \<noteq> None then
                     (if ResponseWasNotFound (fabric_Response resp)
                      then (OK, SetId d [], tr1)
                      else (Failed (Errorf
                              ''Error making Read request on Recovery Service Replication Fabric %q (Resource Group %q, Vault %q): %+v''
                              [S name, S resourceGroup, S vault, msg err]), d, tr1))
                   else
                     (let d1 = Set_attr d ''name'' (map_option S (fabric_Name resp));
                          d2 = Set_attr d1 ''resource_group_name'' (Some (S resourceGroup));
                          d3 = Set_attr d2 ''vault_name'' (Some (S vault))
                      in case fabric_Properties resp of
                           None \<Rightarrow> (Panic, d3, tr1)
                         | Some props \<Rightarrow>
                             (case CustomDetails props of
                                None \<Rightarrow> (Panic, d3, tr1)
                              | Some (AzureFabricSpecificDetails (Some location)) \<Rightarrow>
                                  (OK, Set_attr d3 ''location''
                                         (Some (S (azureRMNormalizeLocation meta location))), tr1)
                              | Some (AzureFabricSpecificDetails None) \<Rightarrow> (OK, d3, tr1)
                              | Some OtherFabricSpecificDetails \<Rightarrow> (OK, d3, tr1))))))"

subsection \<open>Create\<close>

text \<open>
  Lines 80 to 111 of the source: build the input, submit it, wait for the long-running
  operation, fetch its result, set the ID and read. \<open>*result.ID\<close> panics on a nil ID.
\<close>

definition resourceArmRecoveryServicesReplicationFabricCreate_submit ::
  "ArmClient \<Rightarrow> ResourceData \<Rightarrow> fabric_event list
     \<Rightarrow> outcome \<times> ResourceData \<times> fabric_event list" where
  "resourceArmRecoveryServicesReplicationFabricCreate_submit meta d tr =
     (let name = Get_string d ''name'';
          vault = Get_string d ''vault_name'';
          resourceGroup = Get_string d ''resource_group_name'';
          location = Get_string d ''location'';
          azureInput = \<lparr>input_Location = Some location, input_InstanceType = InstanceTypeAzure\<rparr>;
          err = client_Create meta tr resourceGroup vault name azureInput;
          tr1 = tr @ [FCreate resourceGroup vault name azureInput err]
      in if err \<noteq> None then
           (Failed (Errorf
              ''Error creating/updating Recovery Service Vault %q (Resource Group %q, Vault %q): %+v''
              [S name, S vault, S resourceGroup, msg err]), d, tr1)
         else
           (let err2 = future_WaitForCompletionRef meta tr1;
                tr2 = tr1 @ [FWaitForCompletionRef err2]
            in if err2 \<noteq> None then
                 (Failed (Errorf
                    ''Error creating/updating Recovery Service Vault %q (Resource Group %q, Vault %q): %+v''
                    [S name, S vault, S resourceGroup, msg err2]), d, tr2)
               else
                 (case future_Result meta tr2 of
                    (result, err3) \<Rightarrow>
                      (let tr3 = tr2 @ [FResult result err3]
                       in if err3 \<noteq> None then
                            (Failed (Errorf
                               ''Error creating/updating Recovery Service Vault %q (Resource Group %q, Vault %q): %+v''
                               [S name, S vault, S resourceGroup, msg err3]), d, tr3)
                          else
                            (case fabric_ID result of
                               None \<Rightarrow> (Panic, d, tr3)
                             | Some i \<Rightarrow>
                                 resourceArmRecoveryServicesReplicationFabricRead meta
                                   (SetId d i) tr3)))))"

text \<open>
  Lines 55 to 78: the import-safety guard, then the rest. The guard runs only when the
  provider requires imports and the resource is new; the message of its error passes
  \<open>name\<close> twice, as the source does.
\<close>

definition resourceArmRecoveryServicesReplicationFabricCreate ::
  "ArmClient \<Rightarrow> ResourceData \<Rightarrow> fabric_event list
     \<Rightarrow> outcome \<times> ResourceData \<times> fabric_event list" where
  "resourceArmRecoveryServicesReplicationFabricCreate meta d tr =
     (let name = Get_string d ''name'';
          vault = Get_string d ''vault_name'';
          resourceGroup = Get_string d ''resource_group_name''
      in if requireResourcesToBeImported meta \<and> IsNewResource d then
           (case client_Get meta tr resourceGroup vault name of
              (existing, err) \<Rightarrow>
                (let tr1 = tr @ [FGet resourceGroup vault name existing err]
                 in if err \<noteq> None \<and> \<not> ResponseWasNotFound (fabric_Response existing) then
                      (Failed (Errorf
                         ''Error checking for presence of existing Recovery Service Replication Fabric %q (Resource Group %q, vault %q): %+v''
                         [S name, S resourceGroup, S name, msg err]), d, tr1)
                    else
                      (case fabric_ID existing of
                         None \<Rightarrow> resourceArmRecoveryServicesReplicationFabricCreate_submit meta d tr1
                       | Some i \<Rightarrow>
                           if i \<noteq> [] then
                             (Failed (ImportAsExistsError
                                ''azurerm_recovery_services_replication_fabric'' i), d, tr1)
                           else resourceArmRecoveryServicesReplicationFabricCreate_submit meta d tr1)))
         else resourceArmRecoveryServicesReplicationFabricCreate_submit meta d tr)"

subsection \<open>Delete\<close>


section \<open>The Windows performance counter data source\<close>

subsection \<open>JSON documents and the property codec\<close>

text \<open>
  The nested properties of a data source reach the adapter as an \<open>interface{}\<close> that
  the SDK decoded from JSON: nil (\<open>JNull\<close>), or a \<open>map[string]interface{}\<close> for an
  object (its members as a list of pairs), and so on. A number is given by the value
  that its literal denotes when the document is written out again; strings are texts
  in UTF-8, which writing and reading back leave as they are.
\<close>

datatype json =
    JNull
  | JBool bool
  | JNumber rat
  | JString string
  | JArray "json list"
  | JObject "(string \<times> json) list"

record dataSourceWindowsPerformanceCounterProperty =
  CounterName :: string
  InstanceName :: string
  IntervalSeconds :: int
  ObjectName :: string

text \<open>
  Encoding: what \<open>json.Marshal\<close> writes for the struct, one member per field under the
  name of its \<open>json\<close> tag, in the order of the fields.
\<close>

definition json_Marshal :: "dataSourceWindowsPerformanceCounterProperty \<Rightarrow> json" where
  "json_Marshal p =
     JObject [(''counterName'', JString (CounterName p)),
              (''instanceName'', JString (InstanceName p)),
              (''intervalSeconds'', JNumber (of_int (IntervalSeconds p))),
              (''objectName'', JString (ObjectName p))]"

text \<open>
  \<open>structure.FlattenJsonToString\<close>: the empty string for an empty map, otherwise the
  text of the object, which \<open>json.Marshal\<close> writes with the keys in increasing order.
  A text is given by the members it spells, \<open>None\<close> being the empty string. The
  marshalling error of the library cannot arise for a map that was decoded from JSON.
\<close>

definition FlattenJsonToString :: "(string \<times> json) list \<Rightarrow> string + (string \<times> json) list option" where
  "FlattenJsonToString input =
     (if length input = 0 then Inr None else Inr (Some (sort_key fst input)))"

text \<open>
  Decoding, as \<open>json.Unmarshal\<close> fills the struct: each member of the object in turn; a
  key selects the field whose tag equals it, or else the first field whose tag equals
  it without regard to the case of ASCII letters (the library's folding of the two
  non-ASCII letters that fold to \<open>k\<close> and \<open>s\<close> is left out); a key that selects no field
  is skipped; \<open>null\<close> leaves the field as it is; a value of the wrong JSON type, and a
  number that is not an integer of 64 bits for the \<open>int\<close> field, is an error.
\<close>

datatype field = CounterName_field | InstanceName_field | IntervalSeconds_field | ObjectName_field

definition tags :: "(string \<times> field) list" where
  "tags = [(''counterName'', CounterName_field),
           (''instanceName'', InstanceName_field),
           (''intervalSeconds'', IntervalSeconds_field),
           (''objectName'', ObjectName_field)]"

definition lower :: "char \<Rightarrow> char" where
  "lower c = (if CHR ''A'' \<le> c \<and> c \<le> CHR ''Z'' then char_of (of_char c + (32::nat)) else c)"

definition equalFold :: "string \<Rightarrow> string \<Rightarrow> bool" where
  "equalFold a b = (map lower a = map lower b)"

definition field_of_key :: "string \<Rightarrow> field option" where
  "field_of_key key =
     (case find (\<lambda>t. fst t = key) tags of
        Some t \<Rightarrow> Some (snd t)
      | None \<Rightarrow> map_option snd (find (\<lambda>t. equalFold (fst t) key) tags))"

definition set_string ::
  "(string \<Rightarrow> dataSourceWindowsPerformanceCounterProperty) \<Rightarrow> dataSourceWindowsPerformanceCounterProperty
     \<Rightarrow> json \<Rightarrow> string + dataSourceWindowsPerformanceCounterProperty" where
  "set_string upd p v =
     (case v of
        JString s \<Rightarrow> Inr (upd s)
      | JNull \<Rightarrow> Inr p
      | _ \<Rightarrow> Inl ''json: cannot unmarshal into Go struct field of type string'')"

definition set_field ::
  "dataSourceWindowsPerformanceCounterProperty \<Rightarrow> field \<Rightarrow> json
     \<Rightarrow> string + dataSourceWindowsPerformanceCounterProperty" where
  "set_field p f v =
     (case f of
        CounterName_field \<Rightarrow> set_string (\<lambda>s. p\<lparr>CounterName := s\<rparr>) p v
      | InstanceName_field \<Rightarrow> set_string (\<lambda>s. p\<lparr>InstanceName := s\<rparr>) p v
      | ObjectName_field \<Rightarrow> set_string (\<lambda>s. p\<lparr>ObjectName := s\<rparr>) p v
      | IntervalSeconds_field \<Rightarrow>
          (case v of
             JNumber q \<Rightarrow>
               if of_int \<lfloor>q\<rfloor> = q \<and> - (2 ^ 63) \<le> \<lfloor>q\<rfloor> \<and> \<lfloor>q\<rfloor> < 2 ^ 63
               then Inr (p\<lparr>IntervalSeconds := \<lfloor>q\<rfloor>\<rparr>)
               else Inl ''json: cannot unmarshal number into Go struct field of type int''
           | JNull \<Rightarrow> Inr p
           | _ \<Rightarrow> Inl ''json: cannot unmarshal into Go struct field of type int''))"

fun unmarshal_members ::
  "dataSourceWindowsPerformanceCounterProperty \<Rightarrow> (string \<times> json) list
     \<Rightarrow> string + dataSourceWindowsPerformanceCounterProperty" where
  "unmarshal_members p [] = Inr p"
| "unmarshal_members p (m # ms) =
     (case field_of_key (fst m) of
        None \<Rightarrow> unmarshal_members p ms
      | Some f \<Rightarrow>
          (case set_field p f (snd m) of
             Inl e \<Rightarrow> Inl e
           | Inr p' \<Rightarrow> unmarshal_members p' ms))"

definition json_Unmarshal ::
  "(string \<times> json) list option \<Rightarrow> string + dataSourceWindowsPerformanceCounterProperty" where
  "json_Unmarshal text =
     (case text of
        None \<Rightarrow> Inl ''unexpected end of JSON input''
      | Some members \<Rightarrow>
          unmarshal_members
            \<lparr>CounterName = [], InstanceName = [], IntervalSeconds = 0, ObjectName = []\<rparr> members)"

text \<open>
  The decoding that Read performs on a properties document: the type assertion to a
  map (a panic for any other document), the flattening, the unmarshalling. The result
  is the panic (\<open>None\<close>), or the error or the struct.
\<close>

datatype decode_error = FlattenFailed string | DecodeFailed string

definition decode ::
  "json \<Rightarrow> (decode_error + dataSourceWindowsPerformanceCounterProperty) option" where
  "decode props =
     (case props of
        JObject members \<Rightarrow>
          (case FlattenJsonToString members of
             Inl e \<Rightarrow> Some (Inl (FlattenFailed e))
           | Inr propStr \<Rightarrow>
               (case json_Unmarshal propStr of
                  Inl e \<Rightarrow> Some (Inl (DecodeFailed e))
                | Inr prop \<Rightarrow> Some (Inr prop)))
      | _ \<Rightarrow> None)"

subsection \<open>The remote side\<close>

text \<open>
  The part of \<open>operationalinsights.DataSource\<close> that the adapter reads or writes; the
  properties document is \<open>JNull\<close> when the \<open>interface{}\<close> is nil.
\<close>

record DataSource =
  ds_Response :: Response
  ds_ID :: "string option"
  ds_Name :: "string option"
  ds_Properties :: json

datatype DataSourceKind = WindowsEvent | WindowsPerformanceCounter

record DataSourceParams =
  Kind :: DataSourceKind
  Properties :: dataSourceWindowsPerformanceCounterProperty

record LogAnalyticsDataSourceId =
  id_ResourceGroup :: string
  id_Workspace :: string
  id_Name :: string

text \<open>
  The remote calls of the data source adapter with their answers, in the order they
  were made: resource group, workspace and name first, the returned \<open>error\<close> last.
\<close>

datatype counter_event =
    CGet string string string DataSource "string option"
  | CCreateOrUpdate string string string DataSourceParams DataSource "string option"
  | CDelete string string string Response "string option"

text \<open>
  \<open>parse.LogAnalyticsDataSourceID\<close> is not among the source files and is a parameter,
  beside the \<open>DataSourcesClient\<close>; the remote side is again any function of the calls
  made so far.
\<close>

record Client =
  LogAnalyticsDataSourceID :: "string \<Rightarrow> error + LogAnalyticsDataSourceId"
  DataSourcesClient_Get ::
    "counter_event list \<Rightarrow> string \<Rightarrow> string \<Rightarrow> string \<Rightarrow> DataSource \<times> string option"
  DataSourcesClient_CreateOrUpdate ::
    "counter_event list \<Rightarrow> string \<Rightarrow> string \<Rightarrow> string \<Rightarrow> DataSourceParams
       \<Rightarrow> DataSource \<times> string option"
  DataSourcesClient_Delete ::
    "counter_event list \<Rightarrow> string \<Rightarrow> string \<Rightarrow> string \<Rightarrow> Response \<times> string option"

subsection \<open>Read\<close>

definition resourceArmLogAnalyticsDataSourceWindowsPerformanceCounterRead ::
  "Client \<Rightarrow> ResourceData \<Rightarrow> counter_event list
     \<Rightarrow> outcome \<times> ResourceData \<times> counter_event list" where
  "resourceArmLogAnalyticsDataSourceWindowsPerformanceCounterRead meta d tr =
     (case LogAnalyticsDataSourceID meta (Id d) of
        Inl err \<Rightarrow> (Failed err, d, tr)
      | Inr rid \<Rightarrow>
          (case DataSourcesClient_Get meta tr (id_ResourceGroup rid) (id_Workspace rid) (id_Name rid) of
             (resp, err) \<Rightarrow>
               (let tr1 = tr @ [CGet (id_ResourceGroup rid) (id_Workspace rid) (id_Name rid) resp err]
                in if err \<noteq> None then
                     (if ResponseWasNotFound (ds_Response resp)
                      then (OK, SetId d [], tr1)
                      else (Failed (Errorf
                              ''failed to retrieve Log Analytics DataSource Windows Performance Counter %q (Resource Group %q / Workspace: %q): %+v''
                              [S (id_Name rid), S (id_ResourceGroup rid), S (id_Workspace rid), msg err]),
                            d, tr1))
                   else
                     (let d1 = Set_attr d ''name'' (map_option S (ds_Name resp));
                          d2 = Set_attr d1 ''resource_group_name'' (Some (S (id_ResourceGroup rid)));
                          d3 = Set_attr d2 ''workspace_name'' (Some (S (id_Workspace rid)))
                      in if ds_Properties resp \<noteq> JNull then
                           (case decode (ds_Properties resp) of
                              None \<Rightarrow> (Panic, d3, tr1)
                            | Some (Inl (FlattenFailed e)) \<Rightarrow>
                                (Failed (Errorf
                                   ''failed to flatten properties map to json for Log Analytics DataSource Windows Performance Counter %q (Resource Group %q / Workspace: %q): %+v''
                                   [S (id_Name rid), S (id_ResourceGroup rid), S (id_Workspace rid), S e]),
                                 d3, tr1)
                            | Some (Inl (DecodeFailed e)) \<Rightarrow>
                                (Failed (Errorf
                                   ''failed to decode properties json for Log Analytics DataSource Windows Performance Counter %q (Resource Group %q / Workspace: %q): %+v''
                                   [S (id_Name rid), S (id_ResourceGroup rid), S (id_Workspace rid), S e]),
                                 d3, tr1)
                            | Some (Inr prop) \<Rightarrow>
                                (let d4 = Set_attr d3 ''counter_name'' (Some (S (CounterName prop)));
                                     d5 = Set_attr d4 ''instance_name'' (Some (S (InstanceName prop)));
                                     d6 = Set_attr d5 ''interval_seconds'' (Some (I (IntervalSeconds prop)));
                                     d7 = Set_attr d6 ''object_name'' (Some (S (ObjectName prop)))
                                 in (OK, d7, tr1)))
                         else (OK, d3, tr1)))))"

subsection \<open>Create and Update\<close>

text \<open>
  Lines 117 to 144 of the source: build the parameters, send them, fetch the data
  source, set the ID and read. There is no long-running operation to wait for.
\<close>

definition resourceArmLogAnalyticsDataSourceWindowsPerformanceCounterCreateUpdate_submit ::
  "Client \<Rightarrow> ResourceData \<Rightarrow> counter_event list
     \<Rightarrow> outcome \<times> ResourceData \<times> counter_event list" where
  "resourceArmLogAnalyticsDataSourceWindowsPerformanceCounterCreateUpdate_submit meta d tr =
     (let name = Get_string d ''name'';
          resourceGroup = Get_string d ''resource_group_name'';
          workspaceName = Get_string d ''workspace_name'';
          prop = \<lparr>CounterName = Get_string d ''counter_name'',
                  InstanceName = Get_string d ''instance_name'',
                  IntervalSeconds = Get_int d ''interval_seconds'',
                  ObjectName = Get_string d ''object_name''\<rparr>;
          params = \<lparr>Kind = WindowsPerformanceCounter, Properties = prop\<rparr>
      in case DataSourcesClient_CreateOrUpdate meta tr resourceGroup workspaceName name params of
        (created, err) \<Rightarrow>
          (let tr1 = tr @ [CCreateOrUpdate resourceGroup workspaceName name params created err]
           in if err \<noteq> None then
                (Failed (Errorf
                   ''failed to create Log Analytics DataSource Windows Performance Counter %q (Resource Group %q / Workspace: %q): %+v''
                   [S name, S resourceGroup, S workspaceName, msg err]), d, tr1)
              else
                (case DataSourcesClient_Get meta tr1 resourceGroup workspaceName name of
                   (resp, err2) \<Rightarrow>
                     (let tr2 = tr1 @ [CGet resourceGroup workspaceName name resp err2]
                      in if err2 \<noteq> None then
                           (Failed (Errorf
                              ''failed to retrieve Log Analytics DataSource Windows Performance Counter %q (Resource Group %q): %+v''
                              [S name, S resourceGroup, msg err2]), d, tr2)
                         else
                           (case ds_ID resp of
                              None \<Rightarrow>
                                (Failed (Errorf
                                   ''Cannot read ID for Log Analytics DataSource Windows Performance Counter %q (Resource Group %q)''
                                   [S name, S resourceGroup]), d, tr2)
                            | Some i \<Rightarrow>
                                if i = [] then
                                  (Failed (Errorf
                                     ''Cannot read ID for Log Analytics DataSource Windows Performance Counter %q (Resource Group %q)''
                                     [S name, S resourceGroup]), d, tr2)
                                else
                                  resourceArmLogAnalyticsDataSourceWindowsPerformanceCounterRead meta
                                    (SetId d i) tr2)))))"

text \<open>
  Lines 95 to 115: the existence check of a new resource, then the rest.
  \<open>*resp.ID\<close> panics when the data source that was found carries no ID.
\<close>

definition resourceArmLogAnalyticsDataSourceWindowsPerformanceCounterCreateUpdate ::
  "Client \<Rightarrow> ResourceData \<Rightarrow> counter_event list
     \<Rightarrow> outcome \<times> ResourceData \<times> counter_event list" where
  "resourceArmLogAnalyticsDataSourceWindowsPerformanceCounterCreateUpdate meta d tr =
     (let name = Get_string d ''name'';
          resourceGroup = Get_string d ''resource_group_name'';
          workspaceName = Get_string d ''workspace_name''
      in if IsNewResource d then
           (case DataSourcesClient_Get meta tr resourceGroup workspaceName name of
              (resp, err) \<Rightarrow>
                (let tr1 = tr @ [CGet resourceGroup workspaceName name resp err]
                 in if err \<noteq> None \<and> \<not> ResponseWasNotFound (ds_Response resp) then
                      (Failed (Errorf
                         ''failed to check for existing Log Analytics DataSource Windows Performance Counter %q (Resource Group %q / Workspace: %q): %+v''
                         [S name, S resourceGroup, S workspaceName, msg err]), d, tr1)
                    else if \<not> ResponseWasNotFound (ds_Response resp) then
                      (case ds_ID resp of
                         None \<Rightarrow> (Panic, d, tr1)
                       | Some i \<Rightarrow>
                           (Failed (ImportAsExistsError
                              ''azurerm_log_analytics_datasource_windows_performance_counter'' i), d, tr1))
                    else
                      resourceArmLogAnalyticsDataSourceWindowsPerformanceCounterCreateUpdate_submit
                        meta d tr1))
         else
           resourceArmLogAnalyticsDataSourceWindowsPerformanceCounterCreateUpdate_submit meta d tr)"

subsection \<open>Delete\<close>


section \<open>The identifier codec\<close>

text \<open>
  Modelled from the spec: the resource identifier codec. The parsers that Read and
  Delete call (\<open>parseAzureResourceID\<close>, \<open>parse.LogAnalyticsDataSourceID\<close>) are not among
  the source files, and the source has no formatter at all. The spec gives the
  identifier as \<open>{subscriptionId, resourceGroup, parentPath, resourceName}\<close>; its
  \<open>parse\<close> "splits the slash-delimited resource path into named segments" and "fails if
  required segments (resource group, parent, name) are absent" with \<open>MalformedID\<close>; its
  \<open>format\<close> is the inverse. The names of the four segments are a parameter of the codec.
\<close>

record ResourceIdentifier =
  subscriptionId :: string
  resourceGroup :: string
  parentPath :: string
  resourceName :: string

record segment_names =
  subscription_segment :: string
  group_segment :: string
  parent_segment :: string
  name_segment :: string

datatype codec_error = MalformedID string

primrec split_path :: "string \<Rightarrow> string list" where
  "split_path [] = [[]]"
| "split_path (c # cs) =
     (if c = CHR ''/'' then [] # split_path cs
      else (case split_path cs of
              [] \<Rightarrow> [[c]]
            | w # ws \<Rightarrow> (c # w) # ws))"


text \<open>
  Modelled from the spec: \<open>parse\<close>, which stands for the missing parsers. The path is
  split at the slashes; it has to start with a slash and to consist of the four named
  segments, each followed by its value; resource group, parent and name must not be
  empty.
\<close>

definition parse :: "segment_names \<Rightarrow> string \<Rightarrow> codec_error + ResourceIdentifier" where
  "parse names s =
     (let ws = split_path s
      in if length ws = 9 \<and> ws ! 0 = []
            \<and> ws ! 1 = subscription_segment names
            \<and> ws ! 3 = group_segment names \<and> ws ! 4 \<noteq> []
            \<and> ws ! 5 = parent_segment names \<and> ws ! 6 \<noteq> []
            \<and> ws ! 7 = name_segment names \<and> ws ! 8 \<noteq> []
         then Inr \<lparr>subscriptionId = ws ! 2, resourceGroup = ws ! 4,
                   parentPath = ws ! 6, resourceName = ws ! 8\<rparr>
         else Inl (MalformedID s))"





section \<open>Reading the record of remote calls\<close>




text \<open>
  An existence check that lets Create go on. For the fabric: the Get did not fail, or
  failed with not-found, and the answer carries no ID or an empty one. For the data
  source: the answer is not-found.
\<close>

definition fabric_check_passed :: "fabric_event \<Rightarrow> bool" where
  "fabric_check_passed ev =
     (case ev of
        FGet rg v n existing err \<Rightarrow>
          (err = None \<or> ResponseWasNotFound (fabric_Response existing))
          \<and> (fabric_ID existing = None \<or> fabric_ID existing = Some [])
      | _ \<Rightarrow> False)"

definition counter_check_passed :: "counter_event \<Rightarrow> bool" where
  "counter_check_passed ev =
     (case ev of
        CGet rg w n resp err \<Rightarrow> ResponseWasNotFound (ds_Response resp)
      | _ \<Rightarrow> False)"


section \<open>A remote side to run the adapters against\<close>

text \<open>
  One vault and one workspace, each with room for a single resource. The resource
  exists once a creation request has been made and no delete request since; a Get or
  a Delete of a resource that does not exist is answered with status 404 and an error.
  Requests themselves and the long-running operations succeed.
\<close>

definition fabric1_id :: string where
  "fabric1_id = ''/subscriptions/sub1/resourceGroups/rg1/providers/Microsoft.RecoveryServices/vaults/vault1/replicationFabrics/fabric1''"

definition fabric1 :: Fabric where
  "fabric1 =
     \<lparr>fabric_Response = Some 200,
      fabric_Properties = Some \<lparr>CustomDetails = Some (AzureFabricSpecificDetails (Some ''West US''))\<rparr>,
      fabric_ID = Some fabric1_id,
      fabric_Name = Some ''fabric1''\<rparr>"

definition no_fabric :: Fabric where
  "no_fabric =
     \<lparr>fabric_Response = Some 404, fabric_Properties = None,
      fabric_ID = None, fabric_Name = None\<rparr>"

fun fabric_exists :: "fabric_event list \<Rightarrow> bool \<Rightarrow> bool" where
  "fabric_exists [] b = b"
| "fabric_exists (FCreate rg v n i e # tr) b = fabric_exists tr True"
| "fabric_exists (FDelete rg v n e # tr) b = fabric_exists tr False"
| "fabric_exists (ev # tr) b = fabric_exists tr b"

definition vault1 :: ArmClient where
  "vault1 =
     \<lparr>requireResourcesToBeImported = True,
      parseAzureResourceID =
        (\<lambda>s. if s = fabric1_id
             then Inr \<lparr>SubscriptionID = ''sub1'', ResourceGroup = ''rg1'',
                       Provider = ''Microsoft.RecoveryServices'',
                       Path = [''vaults'' \<mapsto> ''vault1'', ''replicationFabrics'' \<mapsto> ''fabric1'']\<rparr>
             else Inl (Errorf ''Cannot parse Azure ID: %q'' [S s])),
      azureRMNormalizeLocation = (\<lambda>s. filter (\<lambda>c. c \<noteq> CHR '' '') (map lower s)),
      client_Get =
        (\<lambda>tr rg v n. if fabric_exists tr False then (fabric1, None)
                      else (no_fabric, Some ''StatusCode=404'')),
      client_Create = (\<lambda>tr rg v n i. None),
      future_WaitForCompletionRef = (\<lambda>tr. None),
      future_Result = (\<lambda>tr. (fabric1, None)),
      client_Delete = (\<lambda>tr rg v n. None),
      future_DeleteResult = (\<lambda>tr. (Some 200, None))\<rparr>"

text \<open>The same vault, except that a Get of the fabric fails with status 500 once it exists.\<close>

definition vault1_unreadable :: ArmClient where
  "vault1_unreadable =
     vault1\<lparr>client_Get :=
       (\<lambda>tr rg v n.
          if fabric_exists tr False
          then (\<lparr>fabric_Response = Some 500, fabric_Properties = None,
                 fabric_ID = None, fabric_Name = None\<rparr>, Some ''StatusCode=500'')
          else (no_fabric, Some ''StatusCode=404''))\<rparr>"

definition fabric1_config :: ResourceData where
  "fabric1_config =
     \<lparr>Id = [], IsNewResource = True,
      attrs = [''name'' \<mapsto> S ''fabric1'', ''resource_group_name'' \<mapsto> S ''rg1'',
               ''vault_name'' \<mapsto> S ''vault1'', ''location'' \<mapsto> S ''westus'']\<rparr>"

definition fabric1_input :: AzureFabricCreationInput where
  "fabric1_input = \<lparr>input_Location = Some ''westus'', input_InstanceType = InstanceTypeAzure\<rparr>"

definition counter1_id :: string where
  "counter1_id = ''/subscriptions/sub1/resourceGroups/rg1/providers/Microsoft.OperationalInsights/workspaces/ws1/dataSources/counter1''"

definition counter1_property :: dataSourceWindowsPerformanceCounterProperty where
  "counter1_property =
     \<lparr>CounterName = ''% Processor Time'', InstanceName = ''_Total'',
      IntervalSeconds = 60, ObjectName = ''Processor''\<rparr>"

definition counter1 :: "json \<Rightarrow> DataSource" where
  "counter1 props =
     \<lparr>ds_Response = Some 200, ds_ID = Some counter1_id,
      ds_Name = Some ''counter1'', ds_Properties = props\<rparr>"

definition no_counter :: DataSource where
  "no_counter = \<lparr>ds_Response = Some 404, ds_ID = None, ds_Name = None, ds_Properties = JNull\<rparr>"

fun counter_exists :: "counter_event list \<Rightarrow> bool \<Rightarrow> bool" where
  "counter_exists [] b = b"
| "counter_exists (CCreateOrUpdate rg w n p r e # tr) b = counter_exists tr True"
| "counter_exists (CDelete rg w n r e # tr) b = counter_exists tr False"
| "counter_exists (ev # tr) b = counter_exists tr b"

text \<open>The workspace answers a Get of the counter with the given properties document.\<close>

definition workspace1 :: "json \<Rightarrow> Client" where
  "workspace1 props =
     \<lparr>LogAnalyticsDataSourceID =
        (\<lambda>s. if s = counter1_id
             then Inr \<lparr>id_ResourceGroup = ''rg1'', id_Workspace = ''ws1'', id_Name = ''counter1''\<rparr>
             else Inl (Errorf ''Cannot parse Azure ID: %q'' [S s])),
      DataSourcesClient_Get =
        (\<lambda>tr rg w n. if counter_exists tr False then (counter1 props, None)
                      else (no_counter, Some ''StatusCode=404'')),
      DataSourcesClient_CreateOrUpdate = (\<lambda>tr rg w n p. (counter1 props, None)),
      DataSourcesClient_Delete =
        (\<lambda>tr rg w n. if counter_exists tr False then (Some 200, None)
                      else (Some 404, Some ''StatusCode=404''))\<rparr>"

definition counter1_config :: ResourceData where
  "counter1_config =
     \<lparr>Id = [], IsNewResource = True,
      attrs = [''name'' \<mapsto> S ''counter1'', ''resource_group_name'' \<mapsto> S ''rg1'',
               ''workspace_name'' \<mapsto> S ''ws1'', ''counter_name'' \<mapsto> S ''% Processor Time'',
               ''instance_name'' \<mapsto> S ''_Total'', ''interval_seconds'' \<mapsto> I 60,
               ''object_name'' \<mapsto> S ''Processor'']\<rparr>"

definition counter1_params :: DataSourceParams where
  "counter1_params = \<lparr>Kind = WindowsPerformanceCounter, Properties = counter1_property\<rparr>"


text \<open>The state of the two resources once they are created and read, and the calls that led there.\<close>

definition fabric1_tracked :: ResourceData where
  "fabric1_tracked =
     fabric1_config\<lparr>Id := fabric1_id,
        attrs := (attrs fabric1_config)
          (''name'' \<mapsto> S ''fabric1'', ''resource_group_name'' \<mapsto> S ''rg1'',
           ''vault_name'' \<mapsto> S ''vault1'', ''location'' \<mapsto> S ''westus'')\<rparr>"

definition fabric1_trace :: "fabric_event list" where
  "fabric1_trace =
     [FGet ''rg1'' ''vault1'' ''fabric1'' no_fabric (Some ''StatusCode=404''),
      FCreate ''rg1'' ''vault1'' ''fabric1'' fabric1_input None,
      FWaitForCompletionRef None,
      FResult fabric1 None,
      FGet ''rg1'' ''vault1'' ''fabric1'' fabric1 None]"

definition counter1_tracked :: ResourceData where
  "counter1_tracked =
     counter1_config\<lparr>Id := counter1_id,
        attrs := (attrs counter1_config)
          (''name'' \<mapsto> S ''counter1'', ''resource_group_name'' \<mapsto> S ''rg1'',
           ''workspace_name'' \<mapsto> S ''ws1'', ''counter_name'' \<mapsto> S ''% Processor Time'',
           ''instance_name'' \<mapsto> S ''_Total'', ''interval_seconds'' \<mapsto> I 60,
           ''object_name'' \<mapsto> S ''Processor'')\<rparr>"

definition counter1_trace :: "json \<Rightarrow> counter_event list" where
  "counter1_trace props =
     [CGet ''rg1'' ''ws1'' ''counter1'' no_counter (Some ''StatusCode=404''),
      CCreateOrUpdate ''rg1'' ''ws1'' ''counter1'' counter1_params (counter1 props) None,
      CGet ''rg1'' ''ws1'' ''counter1'' (counter1 props) None,
      CGet ''rg1'' ''ws1'' ''counter1'' (counter1 props) None]"

section \<open>Theorems\<close>

subsection \<open>The identifier codec\<close>












subsection \<open>The property codec\<close>

lemma sort_tags:
  "sort_key fst [(''counterName'', a), (''instanceName'', b), (''intervalSeconds'', c), (''objectName'', d)]
   = [(''counterName'', a), (''instanceName'', b), (''intervalSeconds'', c), (''objectName'', d)]"
  by simp

lemma field_of_key_tags:
  "field_of_key ''counterName'' = Some CounterName_field"
  "field_of_key ''instanceName'' = Some InstanceName_field"
  "field_of_key ''intervalSeconds'' = Some IntervalSeconds_field"
  "field_of_key ''objectName'' = Some ObjectName_field"
  by (simp_all add: field_of_key_def tags_def)

subsection \<open>The calls that Create makes\<close>












subsection \<open>Where Create sets the ID\<close>

lemma fabric_submit_atomic:
  "fst (snd (resourceArmRecoveryServicesReplicationFabricCreate_submit meta d tr)) = d
   \<or> (\<exists>res i. fabric_ID res = Some i
        \<and> resourceArmRecoveryServicesReplicationFabricCreate_submit meta d tr
          = resourceArmRecoveryServicesReplicationFabricRead meta (SetId d i)
              (tr @ [FCreate (Get_string d ''resource_group_name'') (Get_string d ''vault_name'')
                       (Get_string d ''name'')
                       \<lparr>input_Location = Some (Get_string d ''location''),
                        input_InstanceType = InstanceTypeAzure\<rparr> None,
                     FWaitForCompletionRef None, FResult res None]))"
proof -
  let ?rg = "Get_string d ''resource_group_name''" and ?v = "Get_string d ''vault_name''"
    and ?n = "Get_string d ''name''"
  let ?inp = "\<lparr>input_Location = Some (Get_string d ''location''), input_InstanceType = InstanceTypeAzure\<rparr>"
  let ?tr1 = "tr @ [FCreate ?rg ?v ?n ?inp None]"
  let ?tr2 = "tr @ [FCreate ?rg ?v ?n ?inp None, FWaitForCompletionRef None]"
  note unfold = resourceArmRecoveryServicesReplicationFabricCreate_submit_def Let_def
  show ?thesis
  proof (cases "client_Create meta tr ?rg ?v ?n ?inp")
    case (Some a)
    then show ?thesis by (intro disjI1) (simp add: unfold)
  next
    case e1: None
    show ?thesis
    proof (cases "future_WaitForCompletionRef meta ?tr1")
      case (Some a)
      then show ?thesis using e1 by (intro disjI1) (simp add: unfold)
    next
      case e2: None
      obtain res e3 where r: "future_Result meta ?tr2 = (res, e3)"
        by (cases "future_Result meta ?tr2")
      show ?thesis
      proof (cases e3)
        case (Some a)
        then show ?thesis using e1 e2 r by (intro disjI1) (simp add: unfold)
      next
        case e3: None
        show ?thesis
        proof (cases "fabric_ID res")
          case None
          then show ?thesis using e1 e2 e3 r by (intro disjI1) (simp add: unfold)
        next
          case (Some i)
          then show ?thesis using e1 e2 e3 r
            by (intro disjI2 exI [of _ res] exI [of _ i]) (simp add: unfold)
        qed
      qed
    qed
  qed
qed

lemma fabric_Create_atomic:
  "fst (snd (resourceArmRecoveryServicesReplicationFabricCreate meta d tr)) = d
   \<or> (\<exists>pre res i.
        (if requireResourcesToBeImported meta \<and> IsNewResource d
         then \<exists>ev. pre = [ev] \<and> fabric_check_passed ev else pre = [])
        \<and> fabric_ID res = Some i
        \<and> resourceArmRecoveryServicesReplicationFabricCreate meta d tr
          = resourceArmRecoveryServicesReplicationFabricRead meta (SetId d i)
              (tr @ pre @
                 [FCreate (Get_string d ''resource_group_name'') (Get_string d ''vault_name'')
                    (Get_string d ''name'')
                    \<lparr>input_Location = Some (Get_string d ''location''),
                     input_InstanceType = InstanceTypeAzure\<rparr> None,
                  FWaitForCompletionRef None, FResult res None]))"
proof (cases "requireResourcesToBeImported meta \<and> IsNewResource d")
  case False
  then have eq: "resourceArmRecoveryServicesReplicationFabricCreate meta d tr
    = resourceArmRecoveryServicesReplicationFabricCreate_submit meta d tr"
    by (auto simp add: resourceArmRecoveryServicesReplicationFabricCreate_def)
  from fabric_submit_atomic [of meta d tr] show ?thesis
  proof
    assume "fst (snd (resourceArmRecoveryServicesReplicationFabricCreate_submit meta d tr)) = d"
    then show ?thesis by (simp add: eq)
  next
    assume "\<exists>res i. fabric_ID res = Some i
        \<and> resourceArmRecoveryServicesReplicationFabricCreate_submit meta d tr
          = resourceArmRecoveryServicesReplicationFabricRead meta (SetId d i)
              (tr @ [FCreate (Get_string d ''resource_group_name'') (Get_string d ''vault_name'')
                       (Get_string d ''name'')
                       \<lparr>input_Location = Some (Get_string d ''location''),
                        input_InstanceType = InstanceTypeAzure\<rparr> None,
                     FWaitForCompletionRef None, FResult res None])"
    then obtain res i where "fabric_ID res = Some i"
      "resourceArmRecoveryServicesReplicationFabricCreate_submit meta d tr
          = resourceArmRecoveryServicesReplicationFabricRead meta (SetId d i)
              (tr @ [FCreate (Get_string d ''resource_group_name'') (Get_string d ''vault_name'')
                       (Get_string d ''name'')
                       \<lparr>input_Location = Some (Get_string d ''location''),
                        input_InstanceType = InstanceTypeAzure\<rparr> None,
                     FWaitForCompletionRef None, FResult res None])"
      by (elim exE conjE)
    then show ?thesis using False eq
      by (intro disjI2 exI [of _ "[]"] exI [of _ res] exI [of _ i]) simp
  qed
next
  case True
  let ?rg = "Get_string d ''resource_group_name''" and ?v = "Get_string d ''vault_name''"
    and ?n = "Get_string d ''name''"
  obtain existing err where g: "client_Get meta tr ?rg ?v ?n = (existing, err)"
    by (cases "client_Get meta tr ?rg ?v ?n")
  let ?ev = "FGet ?rg ?v ?n existing err"
  let ?C = "resourceArmRecoveryServicesReplicationFabricCreate meta d tr"
  have "fst (snd ?C) = d
      \<or> (fabric_check_passed ?ev
          \<and> ?C = resourceArmRecoveryServicesReplicationFabricCreate_submit meta d (tr @ [?ev]))"
    using True g
    by (simp add: resourceArmRecoveryServicesReplicationFabricCreate_def Let_def fabric_check_passed_def
        split: option.splits)
  then show ?thesis
  proof
    assume "fst (snd ?C) = d"
    then show ?thesis by (rule disjI1)
  next
    assume "fabric_check_passed ?ev
          \<and> ?C = resourceArmRecoveryServicesReplicationFabricCreate_submit meta d (tr @ [?ev])"
    then have pass: "fabric_check_passed ?ev"
      and go: "?C = resourceArmRecoveryServicesReplicationFabricCreate_submit meta d (tr @ [?ev])"
      by simp_all
    from fabric_submit_atomic [of meta d "tr @ [?ev]"] show ?thesis
    proof
      assume "fst (snd (resourceArmRecoveryServicesReplicationFabricCreate_submit meta d (tr @ [?ev]))) = d"
      then show ?thesis by (simp add: go)
    next
      assume "\<exists>res i. fabric_ID res = Some i
        \<and> resourceArmRecoveryServicesReplicationFabricCreate_submit meta d (tr @ [?ev])
          = resourceArmRecoveryServicesReplicationFabricRead meta (SetId d i)
              ((tr @ [?ev]) @ [FCreate (Get_string d ''resource_group_name'') (Get_string d ''vault_name'')
                       (Get_string d ''name'')
                       \<lparr>input_Location = Some (Get_string d ''location''),
                        input_InstanceType = InstanceTypeAzure\<rparr> None,
                     FWaitForCompletionRef None, FResult res None])"
      then obtain res i where "fabric_ID res = Some i"
        "resourceArmRecoveryServicesReplicationFabricCreate_submit meta d (tr @ [?ev])
          = resourceArmRecoveryServicesReplicationFabricRead meta (SetId d i)
              ((tr @ [?ev]) @ [FCreate (Get_string d ''resource_group_name'') (Get_string d ''vault_name'')
                       (Get_string d ''name'')
                       \<lparr>input_Location = Some (Get_string d ''location''),
                        input_InstanceType = InstanceTypeAzure\<rparr> None,
                     FWaitForCompletionRef None, FResult res None])"
        by (elim exE conjE)
      then show ?thesis using True pass go
        by (intro disjI2 exI [of _ "[?ev]"] exI [of _ res] exI [of _ i]) simp
    qed
  qed
qed

lemma counter_submit_atomic:
  "fst (snd (resourceArmLogAnalyticsDataSourceWindowsPerformanceCounterCreateUpdate_submit meta d tr)) = d
   \<or> (\<exists>created resp i. ds_ID resp = Some i \<and> i \<noteq> []
        \<and> resourceArmLogAnalyticsDataSourceWindowsPerformanceCounterCreateUpdate_submit meta d tr
          = resourceArmLogAnalyticsDataSourceWindowsPerformanceCounterRead meta (SetId d i)
              (tr @ [CCreateOrUpdate (Get_string d ''resource_group_name'')
                       (Get_string d ''workspace_name'') (Get_string d ''name'')
                       \<lparr>Kind = WindowsPerformanceCounter,
                        Properties =
                          \<lparr>CounterName = Get_string d ''counter_name'',
                           InstanceName = Get_string d ''instance_name'',
                           IntervalSeconds = Get_int d ''interval_seconds'',
                           ObjectName = Get_string d ''object_name''\<rparr>\<rparr> created None,
                     CGet (Get_string d ''resource_group_name'')
                       (Get_string d ''workspace_name'') (Get_string d ''name'') resp None]))"
proof -
  let ?rg = "Get_string d ''resource_group_name''" and ?w = "Get_string d ''workspace_name''"
    and ?n = "Get_string d ''name''"
  let ?params = "\<lparr>Kind = WindowsPerformanceCounter,
                        Properties =
                          \<lparr>CounterName = Get_string d ''counter_name'',
                           InstanceName = Get_string d ''instance_name'',
                           IntervalSeconds = Get_int d ''interval_seconds'',
                           ObjectName = Get_string d ''object_name''\<rparr>\<rparr>"
  note unfold = resourceArmLogAnalyticsDataSourceWindowsPerformanceCounterCreateUpdate_submit_def Let_def
  obtain created e1 where c: "DataSourcesClient_CreateOrUpdate meta tr ?rg ?w ?n ?params = (created, e1)"
    by (cases "DataSourcesClient_CreateOrUpdate meta tr ?rg ?w ?n ?params")
  show ?thesis
  proof (cases e1)
    case (Some a)
    then show ?thesis using c by (intro disjI1) (simp add: unfold)
  next
    case e1: None
    let ?tr1 = "tr @ [CCreateOrUpdate ?rg ?w ?n ?params created None]"
    obtain resp e2 where g: "DataSourcesClient_Get meta ?tr1 ?rg ?w ?n = (resp, e2)"
      by (cases "DataSourcesClient_Get meta ?tr1 ?rg ?w ?n")
    show ?thesis
    proof (cases e2)
      case (Some a)
      then show ?thesis using c e1 g by (intro disjI1) (simp add: unfold)
    next
      case e2: None
      show ?thesis
      proof (cases "ds_ID resp")
        case None
        then show ?thesis using c e1 g e2 by (intro disjI1) (simp add: unfold)
      next
        case (Some i)
        show ?thesis
        proof (cases "i = []")
          case True
          then show ?thesis using c e1 g e2 Some by (intro disjI1) (simp add: unfold)
        next
          case False
          then show ?thesis using c e1 g e2 Some
            by (intro disjI2 exI [of _ created] exI [of _ resp] exI [of _ i]) (simp add: unfold)
        qed
      qed
    qed
  qed
qed

lemma counter_Create_atomic:
  "fst (snd (resourceArmLogAnalyticsDataSourceWindowsPerformanceCounterCreateUpdate meta d tr)) = d
   \<or> (\<exists>pre created resp i.
        (if IsNewResource d then \<exists>ev. pre = [ev] \<and> counter_check_passed ev else pre = [])
        \<and> ds_ID resp = Some i \<and> i \<noteq> []
        \<and> resourceArmLogAnalyticsDataSourceWindowsPerformanceCounterCreateUpdate meta d tr
          = resourceArmLogAnalyticsDataSourceWindowsPerformanceCounterRead meta (SetId d i)
              (tr @ pre @
                 [CCreateOrUpdate (Get_string d ''resource_group_name'')
                       (Get_string d ''workspace_name'') (Get_string d ''name'')
                       \<lparr>Kind = WindowsPerformanceCounter,
                        Properties =
                          \<lparr>CounterName = Get_string d ''counter_name'',
                           InstanceName = Get_string d ''instance_name'',
                           IntervalSeconds = Get_int d ''interval_seconds'',
                           ObjectName = Get_string d ''object_name''\<rparr>\<rparr> created None,
                  CGet (Get_string d ''resource_group_name'')
                       (Get_string d ''workspace_name'') (Get_string d ''name'') resp None]))"
proof (cases "IsNewResource d")
  case False
  then have eq: "resourceArmLogAnalyticsDataSourceWindowsPerformanceCounterCreateUpdate meta d tr
    = resourceArmLogAnalyticsDataSourceWindowsPerformanceCounterCreateUpdate_submit meta d tr"
    by (simp add: resourceArmLogAnalyticsDataSourceWindowsPerformanceCounterCreateUpdate_def)
  from counter_submit_atomic [of meta d tr] show ?thesis
  proof (elim disjE exE conjE)
    assume "fst (snd (resourceArmLogAnalyticsDataSourceWindowsPerformanceCounterCreateUpdate_submit meta d tr)) = d"
    then show ?thesis by (simp add: eq)
  next
    fix created resp i
    assume "ds_ID resp = Some i" "i \<noteq> []"
      "resourceArmLogAnalyticsDataSourceWindowsPerformanceCounterCreateUpdate_submit meta d tr
          = resourceArmLogAnalyticsDataSourceWindowsPerformanceCounterRead meta (SetId d i)
              (tr @ [CCreateOrUpdate (Get_string d ''resource_group_name'')
                       (Get_string d ''workspace_name'') (Get_string d ''name'')
                       \<lparr>Kind = WindowsPerformanceCounter,
                        Properties =
                          \<lparr>CounterName = Get_string d ''counter_name'',
                           InstanceName = Get_string d ''instance_name'',
                           IntervalSeconds = Get_int d ''interval_seconds'',
                           ObjectName = Get_string d ''object_name''\<rparr>\<rparr> created None,
                     CGet (Get_string d ''resource_group_name'')
                       (Get_string d ''workspace_name'') (Get_string d ''name'') resp None])"
    then show ?thesis using False eq
      by (intro disjI2 exI [of _ "[]"] exI [of _ created] exI [of _ resp] exI [of _ i]) simp
  qed
next
  case True
  let ?rg = "Get_string d ''resource_group_name''" and ?w = "Get_string d ''workspace_name''"
    and ?n = "Get_string d ''name''"
  obtain existing err where g: "DataSourcesClient_Get meta tr ?rg ?w ?n = (existing, err)"
    by (cases "DataSourcesClient_Get meta tr ?rg ?w ?n")
  let ?ev = "CGet ?rg ?w ?n existing err"
  let ?C = "resourceArmLogAnalyticsDataSourceWindowsPerformanceCounterCreateUpdate meta d tr"
  have "fst (snd ?C) = d
      \<or> (counter_check_passed ?ev
          \<and> ?C = resourceArmLogAnalyticsDataSourceWindowsPerformanceCounterCreateUpdate_submit meta d (tr @ [?ev]))"
    using True g
    by (simp add: resourceArmLogAnalyticsDataSourceWindowsPerformanceCounterCreateUpdate_def Let_def
        counter_check_passed_def split: option.splits)
  then show ?thesis
  proof (elim disjE conjE)
    assume "fst (snd ?C) = d"
    then show ?thesis by (rule disjI1)
  next
    assume pass: "counter_check_passed ?ev"
      and go: "?C = resourceArmLogAnalyticsDataSourceWindowsPerformanceCounterCreateUpdate_submit meta d (tr @ [?ev])"
    from counter_submit_atomic [of meta d "tr @ [?ev]"] show ?thesis
    proof (elim disjE exE conjE)
      assume "fst (snd (resourceArmLogAnalyticsDataSourceWindowsPerformanceCounterCreateUpdate_submit meta d (tr @ [?ev]))) = d"
      then show ?thesis by (simp add: go)
    next
      fix created resp i
      assume "ds_ID resp = Some i" "i \<noteq> []"
        "resourceArmLogAnalyticsDataSourceWindowsPerformanceCounterCreateUpdate_submit meta d (tr @ [?ev])
          = resourceArmLogAnalyticsDataSourceWindowsPerformanceCounterRead meta (SetId d i)
              ((tr @ [?ev]) @ [CCreateOrUpdate (Get_string d ''resource_group_name'')
                       (Get_string d ''workspace_name'') (Get_string d ''name'')
                       \<lparr>Kind = WindowsPerformanceCounter,
                        Properties =
                          \<lparr>CounterName = Get_string d ''counter_name'',
                           InstanceName = Get_string d ''instance_name'',
                           IntervalSeconds = Get_int d ''interval_seconds'',
                           ObjectName = Get_string d ''object_name''\<rparr>\<rparr> created None,
                     CGet (Get_string d ''resource_group_name'')
                       (Get_string d ''workspace_name'') (Get_string d ''name'') resp None])"
      then show ?thesis using True pass go
        by (intro disjI2 exI [of _ "[?ev]"] exI [of _ created] exI [of _ resp] exI [of _ i]) simp
    qed
  qed
qed

subsection \<open>What Create submits and what Read writes to the location\<close>




subsection \<open>Runs against the example remote side\<close>

lemmas fabric1_defs =
  vault1_def fabric1_config_def fabric1_tracked_def fabric1_trace_def fabric1_def no_fabric_def
  fabric1_input_def fabric1_id_def Get_string_def SetId_def Set_attr_def Path_at_def
  ResponseWasNotFound_def lower_def char_of_def bit_0 Let_def msg_def

lemmas counter1_defs =
  workspace1_def counter1_config_def counter1_tracked_def counter1_trace_def counter1_def no_counter_def
  counter1_params_def counter1_property_def counter1_id_def Get_string_def Get_int_def SetId_def Set_attr_def
  ResponseWasNotFound_def Let_def msg_def
  decode_def json_Marshal_def FlattenJsonToString_def sort_tags json_Unmarshal_def
  field_of_key_tags set_field_def set_string_def

lemma fabric1_run:
  "resourceArmRecoveryServicesReplicationFabricCreate vault1 fabric1_config []
     = (OK, fabric1_tracked, fabric1_trace)"
  by (simp add: resourceArmRecoveryServicesReplicationFabricCreate_def
      resourceArmRecoveryServicesReplicationFabricCreate_submit_def
      resourceArmRecoveryServicesReplicationFabricRead_def fabric1_defs)

lemma counter1_run:
  "resourceArmLogAnalyticsDataSourceWindowsPerformanceCounterCreateUpdate
      (workspace1 (json_Marshal counter1_property)) counter1_config []
     = (OK, counter1_tracked, counter1_trace (json_Marshal counter1_property))"
  by (simp add: resourceArmLogAnalyticsDataSourceWindowsPerformanceCounterCreateUpdate_def
      resourceArmLogAnalyticsDataSourceWindowsPerformanceCounterCreateUpdate_submit_def
      resourceArmLogAnalyticsDataSourceWindowsPerformanceCounterRead_def counter1_defs)


subsection \<open>The claims\<close>

text \<open>
  C1. Create on an identifier that the remote Get reports as existing, with the
  import-safety guard enabled, fails with the import error and makes no creation
  request. The guard is enabled for the fabric when the provider requires imports and
  the resource is new, and for the data source when the resource is new. The Get
  reports an existing resource when it returns without error a resource with an ID
  (a non-empty one for the fabric; a response that is not not-found for the data
  source). The resource data are unchanged and the Get is the only remote call made.
\<close>

theorem Create_existing_is_refused:
  "(requireResourcesToBeImported meta \<and> IsNewResource d
      \<and> client_Get meta tr (Get_string d ''resource_group_name'') (Get_string d ''vault_name'')
            (Get_string d ''name'') = (existing, None)
      \<and> fabric_ID existing = Some i \<and> i \<noteq> []
    \<longrightarrow> resourceArmRecoveryServicesReplicationFabricCreate meta d tr
        = (Failed (ImportAsExistsError ''azurerm_recovery_services_replication_fabric'' i), d,
           tr @ [FGet (Get_string d ''resource_group_name'') (Get_string d ''vault_name'')
                   (Get_string d ''name'') existing None]))
   \<and> (IsNewResource e
      \<and> DataSourcesClient_Get c tq (Get_string e ''resource_group_name'')
            (Get_string e ''workspace_name'') (Get_string e ''name'') = (resp, None)
      \<and> \<not> ResponseWasNotFound (ds_Response resp) \<and> ds_ID resp = Some j
    \<longrightarrow> resourceArmLogAnalyticsDataSourceWindowsPerformanceCounterCreateUpdate c e tq
        = (Failed (ImportAsExistsError ''azurerm_log_analytics_datasource_windows_performance_counter'' j), e,
           tq @ [CGet (Get_string e ''resource_group_name'') (Get_string e ''workspace_name'')
                   (Get_string e ''name'') resp None]))"
  by (simp add: resourceArmRecoveryServicesReplicationFabricCreate_def
      resourceArmLogAnalyticsDataSourceWindowsPerformanceCounterCreateUpdate_def Let_def)

text \<open>
  Witness of C1: on the example remote side, once the fabric and the counter have been
  created, creating them again as new resources is refused after the one Get.
\<close>

theorem Create_existing_is_refused_witness:
  "requireResourcesToBeImported vault1 \<and> IsNewResource fabric1_config
   \<and> client_Get vault1 fabric1_trace ''rg1'' ''vault1'' ''fabric1'' = (fabric1, None)
   \<and> resourceArmRecoveryServicesReplicationFabricCreate vault1 fabric1_config fabric1_trace
       = (Failed (ImportAsExistsError ''azurerm_recovery_services_replication_fabric'' fabric1_id),
          fabric1_config, fabric1_trace @ [FGet ''rg1'' ''vault1'' ''fabric1'' fabric1 None])
   \<and> IsNewResource counter1_config
   \<and> DataSourcesClient_Get (workspace1 JNull) (counter1_trace JNull) ''rg1'' ''ws1'' ''counter1''
       = (counter1 JNull, None)
   \<and> resourceArmLogAnalyticsDataSourceWindowsPerformanceCounterCreateUpdate (workspace1 JNull)
          counter1_config (counter1_trace JNull)
       = (Failed (ImportAsExistsError ''azurerm_log_analytics_datasource_windows_performance_counter''
                    counter1_id),
          counter1_config, counter1_trace JNull @ [CGet ''rg1'' ''ws1'' ''counter1'' (counter1 JNull) None])"
proof -
  have f: "requireResourcesToBeImported vault1 \<and> IsNewResource fabric1_config
      \<and> client_Get vault1 fabric1_trace ''rg1'' ''vault1'' ''fabric1'' = (fabric1, None)
      \<and> fabric_ID fabric1 = Some fabric1_id \<and> fabric1_id \<noteq> []"
    by (simp add: fabric1_defs)
  have fg: "Get_string fabric1_config ''resource_group_name'' = ''rg1''"
    "Get_string fabric1_config ''vault_name'' = ''vault1''"
    "Get_string fabric1_config ''name'' = ''fabric1''"
    by (simp_all add: fabric1_config_def Get_string_def)
  have c: "IsNewResource counter1_config
      \<and> DataSourcesClient_Get (workspace1 JNull) (counter1_trace JNull) ''rg1'' ''ws1'' ''counter1''
          = (counter1 JNull, None)
      \<and> \<not> ResponseWasNotFound (ds_Response (counter1 JNull))
      \<and> ds_ID (counter1 JNull) = Some counter1_id"
    by (simp add: counter1_defs)
  have cg: "Get_string counter1_config ''resource_group_name'' = ''rg1''"
    "Get_string counter1_config ''workspace_name'' = ''ws1''"
    "Get_string counter1_config ''name'' = ''counter1''"
    by (simp_all add: counter1_config_def Get_string_def)
  show ?thesis
    using f c
      Create_existing_is_refused [where meta = vault1 and d = fabric1_config and tr = fabric1_trace
        and existing = fabric1 and i = fabric1_id and c = "workspace1 JNull" and e = counter1_config
        and tq = "counter1_trace JNull" and resp = "counter1 JNull" and j = counter1_id]
    by (simp add: fg cg)
qed

text \<open>
  C2. When the remote Get of a Read answers not-found (an error with status 404), Read
  sets the ID to the empty string and returns nil, for both resources. The Get is
  reached when the stored ID parses.
\<close>

theorem Read_not_found_clears_Id:
  "(parseAzureResourceID meta (Id d) = Inr rid
      \<and> client_Get meta tr (ResourceGroup rid) (Path_at rid ''vaults'')
            (Path_at rid ''replicationFabrics'') = (resp, Some err)
      \<and> ResponseWasNotFound (fabric_Response resp)
    \<longrightarrow> resourceArmRecoveryServicesReplicationFabricRead meta d tr
        = (OK, d\<lparr>Id := []\<rparr>,
           tr @ [FGet (ResourceGroup rid) (Path_at rid ''vaults'')
                   (Path_at rid ''replicationFabrics'') resp (Some err)]))
   \<and> (LogAnalyticsDataSourceID c (Id e) = Inr cid
      \<and> DataSourcesClient_Get c tq (id_ResourceGroup cid) (id_Workspace cid) (id_Name cid)
          = (found, Some err')
      \<and> ResponseWasNotFound (ds_Response found)
    \<longrightarrow> resourceArmLogAnalyticsDataSourceWindowsPerformanceCounterRead c e tq
        = (OK, e\<lparr>Id := []\<rparr>,
           tq @ [CGet (id_ResourceGroup cid) (id_Workspace cid) (id_Name cid) found (Some err')]))"
  by (simp add: resourceArmRecoveryServicesReplicationFabricRead_def
      resourceArmLogAnalyticsDataSourceWindowsPerformanceCounterRead_def SetId_def Let_def)

text \<open>
  Witness of C2: reading the tracked fabric and counter from a remote side where they
  do not exist.
\<close>

theorem Read_not_found_clears_Id_witness:
  "resourceArmRecoveryServicesReplicationFabricRead vault1 fabric1_tracked []
     = (OK, fabric1_tracked\<lparr>Id := []\<rparr>,
        [FGet ''rg1'' ''vault1'' ''fabric1'' no_fabric (Some ''StatusCode=404'')])
   \<and> resourceArmLogAnalyticsDataSourceWindowsPerformanceCounterRead (workspace1 JNull)
       counter1_tracked []
     = (OK, counter1_tracked\<lparr>Id := []\<rparr>,
        [CGet ''rg1'' ''ws1'' ''counter1'' no_counter (Some ''StatusCode=404'')])"
proof -
  let ?rid = "\<lparr>SubscriptionID = ''sub1'', ResourceGroup = ''rg1'',
                Provider = ''Microsoft.RecoveryServices'',
                Path = [''vaults'' \<mapsto> ''vault1'', ''replicationFabrics'' \<mapsto> ''fabric1'']\<rparr>"
  let ?cid = "\<lparr>id_ResourceGroup = ''rg1'', id_Workspace = ''ws1'', id_Name = ''counter1''\<rparr>"
  have f: "parseAzureResourceID vault1 (Id fabric1_tracked) = Inr ?rid
      \<and> client_Get vault1 [] (ResourceGroup ?rid) (Path_at ?rid ''vaults'')
            (Path_at ?rid ''replicationFabrics'') = (no_fabric, Some ''StatusCode=404'')
      \<and> ResponseWasNotFound (fabric_Response no_fabric)"
    by (simp add: fabric1_defs)
  have c: "LogAnalyticsDataSourceID (workspace1 JNull) (Id counter1_tracked) = Inr ?cid
      \<and> DataSourcesClient_Get (workspace1 JNull) [] (id_ResourceGroup ?cid) (id_Workspace ?cid)
           (id_Name ?cid) = (no_counter, Some ''StatusCode=404'')
      \<and> ResponseWasNotFound (ds_Response no_counter)"
    by (simp add: counter1_defs)
  show ?thesis
    using f c
      Read_not_found_clears_Id [where meta = vault1 and d = fabric1_tracked and tr = "[]"
        and rid = ?rid and resp = no_fabric and err = "''StatusCode=404''"
        and c = "workspace1 JNull" and e = counter1_tracked and tq = "[]" and cid = ?cid
        and found = no_counter and err' = "''StatusCode=404''"]
    by (simp add: Path_at_def)
qed




text \<open>
  C4, as stated, fails: Create can return an error with the identifier set. Create
  ends with \<open>return Read(d, meta)\<close> after \<open>d.SetId\<close>, so an error of that Read is an
  error return of Create. Here the fabric is created and the Get of the final Read is
  answered with status 500.
\<close>

theorem Create_error_with_Id_set:
  "fst (resourceArmRecoveryServicesReplicationFabricCreate vault1_unreadable fabric1_config [])
     = Failed (Errorf
         ''Error making Read request on Recovery Service Replication Fabric %q (Resource Group %q, Vault %q): %+v''
         [S ''fabric1'', S ''rg1'', S ''vault1'', S ''StatusCode=500''])
   \<and> Id fabric1_config = []
   \<and> Id (fst (snd (resourceArmRecoveryServicesReplicationFabricCreate vault1_unreadable
                      fabric1_config []))) = fabric1_id
   \<and> fabric1_id \<noteq> []"
  by (simp add: resourceArmRecoveryServicesReplicationFabricCreate_def
      resourceArmRecoveryServicesReplicationFabricCreate_submit_def
      resourceArmRecoveryServicesReplicationFabricRead_def vault1_unreadable_def fabric1_defs)

text \<open>
  C4, amended. Create either leaves the resource data as they were, or it has set the
  ID, to the ID that the final fetch returned, after the existence check (when it
  runs) has let it pass and the creation request, the wait for completion (fabric) and
  the final fetch have all succeeded; from then on Create continues as Read does on the
  resource data with that ID and returns what Read returns. Hence every error return
  before the ID is set leaves the resource data unchanged.
\<close>

theorem Create_sets_Id_last:
  "(resourceArmRecoveryServicesReplicationFabricCreate meta d tr = (r, d', tr') \<longrightarrow>
      d' = d
      \<or> (\<exists>pre res i.
            (if requireResourcesToBeImported meta \<and> IsNewResource d
             then \<exists>ev. pre = [ev] \<and> fabric_check_passed ev else pre = [])
            \<and> fabric_ID res = Some i
            \<and> (r, d', tr')
              = resourceArmRecoveryServicesReplicationFabricRead meta (SetId d i)
                  (tr @ pre @
                     [FCreate (Get_string d ''resource_group_name'') (Get_string d ''vault_name'')
                        (Get_string d ''name'')
                        \<lparr>input_Location = Some (Get_string d ''location''),
                         input_InstanceType = InstanceTypeAzure\<rparr> None,
                      FWaitForCompletionRef None, FResult res None])))
   \<and> (resourceArmLogAnalyticsDataSourceWindowsPerformanceCounterCreateUpdate c e tq = (q, e', tq') \<longrightarrow>
      e' = e
      \<or> (\<exists>pre created resp j.
            (if IsNewResource e then \<exists>ev. pre = [ev] \<and> counter_check_passed ev else pre = [])
            \<and> ds_ID resp = Some j \<and> j \<noteq> []
            \<and> (q, e', tq')
              = resourceArmLogAnalyticsDataSourceWindowsPerformanceCounterRead c (SetId e j)
                  (tq @ pre @
                     [CCreateOrUpdate (Get_string e ''resource_group_name'')
                        (Get_string e ''workspace_name'') (Get_string e ''name'')
                        \<lparr>Kind = WindowsPerformanceCounter,
                         Properties =
                           \<lparr>CounterName = Get_string e ''counter_name'',
                            InstanceName = Get_string e ''instance_name'',
                            IntervalSeconds = Get_int e ''interval_seconds'',
                            ObjectName = Get_string e ''object_name''\<rparr>\<rparr> created None,
                      CGet (Get_string e ''resource_group_name'')
                        (Get_string e ''workspace_name'') (Get_string e ''name'') resp None])))"
proof (intro conjI impI)
  assume run: "resourceArmRecoveryServicesReplicationFabricCreate meta d tr = (r, d', tr')"
  from fabric_Create_atomic [of meta d tr]
  show "d' = d
      \<or> (\<exists>pre res i.
            (if requireResourcesToBeImported meta \<and> IsNewResource d
             then \<exists>ev. pre = [ev] \<and> fabric_check_passed ev else pre = [])
            \<and> fabric_ID res = Some i
            \<and> (r, d', tr')
              = resourceArmRecoveryServicesReplicationFabricRead meta (SetId d i)
                  (tr @ pre @
                     [FCreate (Get_string d ''resource_group_name'') (Get_string d ''vault_name'')
                        (Get_string d ''name'')
                        \<lparr>input_Location = Some (Get_string d ''location''),
                         input_InstanceType = InstanceTypeAzure\<rparr> None,
                      FWaitForCompletionRef None, FResult res None]))"
    unfolding run by simp
next
  assume run: "resourceArmLogAnalyticsDataSourceWindowsPerformanceCounterCreateUpdate c e tq = (q, e', tq')"
  from counter_Create_atomic [of c e tq]
  show "e' = e
      \<or> (\<exists>pre created resp j.
            (if IsNewResource e then \<exists>ev. pre = [ev] \<and> counter_check_passed ev else pre = [])
            \<and> ds_ID resp = Some j \<and> j \<noteq> []
            \<and> (q, e', tq')
              = resourceArmLogAnalyticsDataSourceWindowsPerformanceCounterRead c (SetId e j)
                  (tq @ pre @
                     [CCreateOrUpdate (Get_string e ''resource_group_name'')
                        (Get_string e ''workspace_name'') (Get_string e ''name'')
                        \<lparr>Kind = WindowsPerformanceCounter,
                         Properties =
                           \<lparr>CounterName = Get_string e ''counter_name'',
                            InstanceName = Get_string e ''instance_name'',
                            IntervalSeconds = Get_int e ''interval_seconds'',
                            ObjectName = Get_string e ''object_name''\<rparr>\<rparr> created None,
                      CGet (Get_string e ''resource_group_name'')
                        (Get_string e ''workspace_name'') (Get_string e ''name'') resp None]))"
    unfolding run by simp
qed

text \<open>
  Witness of C4: the two resources are created on the example remote side, and their
  IDs are set.
\<close>

theorem Create_sets_Id_last_witness:
  "resourceArmRecoveryServicesReplicationFabricCreate vault1 fabric1_config []
     = (OK, fabric1_tracked, fabric1_trace)
   \<and> Id fabric1_config = [] \<and> Id fabric1_tracked = fabric1_id
   \<and> (\<exists>pre res i.
         (\<exists>ev. pre = [ev] \<and> fabric_check_passed ev) \<and> fabric_ID res = Some i
         \<and> (OK, fabric1_tracked, fabric1_trace)
           = resourceArmRecoveryServicesReplicationFabricRead vault1 (SetId fabric1_config i)
               (pre @ [FCreate ''rg1'' ''vault1'' ''fabric1'' fabric1_input None,
                       FWaitForCompletionRef None, FResult res None]))
   \<and> resourceArmLogAnalyticsDataSourceWindowsPerformanceCounterCreateUpdate
        (workspace1 (json_Marshal counter1_property)) counter1_config []
     = (OK, counter1_tracked, counter1_trace (json_Marshal counter1_property))
   \<and> Id counter1_config = [] \<and> Id counter1_tracked = counter1_id
   \<and> (\<exists>pre created resp j.
         (\<exists>ev. pre = [ev] \<and> counter_check_passed ev) \<and> ds_ID resp = Some j \<and> j \<noteq> []
         \<and> (OK, counter1_tracked, counter1_trace (json_Marshal counter1_property))
           = resourceArmLogAnalyticsDataSourceWindowsPerformanceCounterRead
               (workspace1 (json_Marshal counter1_property)) (SetId counter1_config j)
               (pre @ [CCreateOrUpdate ''rg1'' ''ws1'' ''counter1'' counter1_params created None,
                       CGet ''rg1'' ''ws1'' ''counter1'' resp None]))"
proof -
  have ids: "Id fabric1_config = []" "Id fabric1_tracked = fabric1_id" "fabric1_id \<noteq> []"
    "Id counter1_config = []" "Id counter1_tracked = counter1_id" "counter1_id \<noteq> []"
    by (simp_all add: fabric1_config_def fabric1_tracked_def fabric1_id_def
        counter1_config_def counter1_tracked_def counter1_id_def)
  then have neq: "fabric1_tracked \<noteq> fabric1_config" "counter1_tracked \<noteq> counter1_config"
    by auto
  have g: "requireResourcesToBeImported vault1" "IsNewResource fabric1_config"
    "IsNewResource counter1_config"
    by (simp_all add: vault1_def fabric1_config_def counter1_config_def)
  have fg: "Get_string fabric1_config ''resource_group_name'' = ''rg1''"
    "Get_string fabric1_config ''vault_name'' = ''vault1''"
    "Get_string fabric1_config ''name'' = ''fabric1''"
    "Get_string fabric1_config ''location'' = ''westus''"
    by (simp_all add: fabric1_config_def Get_string_def)
  have cg: "Get_string counter1_config ''resource_group_name'' = ''rg1''"
    "Get_string counter1_config ''workspace_name'' = ''ws1''"
    "Get_string counter1_config ''name'' = ''counter1''"
    "Get_string counter1_config ''counter_name'' = ''% Processor Time''"
    "Get_string counter1_config ''instance_name'' = ''_Total''"
    "Get_int counter1_config ''interval_seconds'' = 60"
    "Get_string counter1_config ''object_name'' = ''Processor''"
    by (simp_all add: counter1_config_def Get_string_def Get_int_def)
  note t = Create_sets_Id_last [where meta = vault1 and d = fabric1_config and tr = "[]"
      and r = OK and d' = fabric1_tracked and tr' = fabric1_trace
      and c = "workspace1 (json_Marshal counter1_property)" and e = counter1_config and tq = "[]"
      and q = OK and e' = counter1_tracked and tq' = "counter1_trace (json_Marshal counter1_property)"]
  show ?thesis
    using t fabric1_run counter1_run neq
    by (simp add: ids g fg cg fabric1_input_def counter1_params_def counter1_property_def)
qed

text \<open>
  C5. The validator of \<open>interval_seconds\<close> accepts an integer \<open>v\<close> exactly when
  \<open>10 \<le> v\<close> and \<open>v\<close> is at most the largest 32-bit signed integer; the value 5 is
  rejected with the range error. The validator is a function of the value and the
  attribute name alone: it has no client to call.
\<close>

theorem interval_seconds_validator:
  "(validate_attr (resourceArmLogAnalyticsDataSourceWindowsPerformanceCounter rg wv)
        ''interval_seconds'' (I v) = []) = (10 \<le> v \<and> v \<le> 2 ^ 31 - 1)
   \<and> validate_attr (resourceArmLogAnalyticsDataSourceWindowsPerformanceCounter rg wv)
        ''interval_seconds'' (I 5)
      = [Errorf ''expected %s to be in the range (%d - %d), got %d''
           [S ''interval_seconds'', I 10, I 2147483647, I 5]]"
  by (auto simp add: validate_attr_def IntBetween_def MaxInt32_def
      resourceArmLogAnalyticsDataSourceWindowsPerformanceCounter_def)








text \<open>
  C9. A successful Read of the data source whose answer carries no properties
  document writes \<open>name\<close>, \<open>resource_group_name\<close> and \<open>workspace_name\<close> and nothing
  else: every other attribute, \<open>counter_name\<close>, \<open>instance_name\<close>, \<open>interval_seconds\<close>
  and \<open>object_name\<close> among them, and the ID are as before.
\<close>

theorem Read_without_properties:
  assumes "LogAnalyticsDataSourceID meta (Id d) = Inr rid"
    and "DataSourcesClient_Get meta tr (id_ResourceGroup rid) (id_Workspace rid) (id_Name rid)
           = (resp, None)"
    and "ds_Properties resp = JNull"
  shows "resourceArmLogAnalyticsDataSourceWindowsPerformanceCounterRead meta d tr
      = (OK,
         d\<lparr>attrs := (attrs d)(''name'' := map_option S (ds_Name resp),
                               ''resource_group_name'' \<mapsto> S (id_ResourceGroup rid),
                               ''workspace_name'' \<mapsto> S (id_Workspace rid))\<rparr>,
         tr @ [CGet (id_ResourceGroup rid) (id_Workspace rid) (id_Name rid) resp None])
    \<and> (\<forall>key. key \<noteq> ''name'' \<and> key \<noteq> ''resource_group_name'' \<and> key \<noteq> ''workspace_name''
          \<longrightarrow> attrs (fst (snd (resourceArmLogAnalyticsDataSourceWindowsPerformanceCounterRead meta d tr))) key
              = attrs d key)
    \<and> map (attrs (fst (snd (resourceArmLogAnalyticsDataSourceWindowsPerformanceCounterRead meta d tr))))
        [''counter_name'', ''instance_name'', ''interval_seconds'', ''object_name'']
      = map (attrs d) [''counter_name'', ''instance_name'', ''interval_seconds'', ''object_name'']"
  using assms
  by (simp add: resourceArmLogAnalyticsDataSourceWindowsPerformanceCounterRead_def Set_attr_def Let_def)

text \<open>
  Witness of C9: reading the counter, with no attribute set beforehand, from a
  workspace that answers without properties.
\<close>

theorem Read_without_properties_witness:
  "resourceArmLogAnalyticsDataSourceWindowsPerformanceCounterRead (workspace1 JNull)
       (counter1_config\<lparr>Id := counter1_id, attrs := Map.empty\<rparr>) (counter1_trace JNull)
     = (OK,
        counter1_config\<lparr>Id := counter1_id,
          attrs := [''name'' \<mapsto> S ''counter1'', ''resource_group_name'' \<mapsto> S ''rg1'',
                    ''workspace_name'' \<mapsto> S ''ws1'']\<rparr>,
        counter1_trace JNull @ [CGet ''rg1'' ''ws1'' ''counter1'' (counter1 JNull) None])
   \<and> map (attrs (fst (snd (resourceArmLogAnalyticsDataSourceWindowsPerformanceCounterRead
                (workspace1 JNull) (counter1_config\<lparr>Id := counter1_id, attrs := Map.empty\<rparr>)
                (counter1_trace JNull)))))
        [''counter_name'', ''instance_name'', ''interval_seconds'', ''object_name'']
      = [None, None, None, None]"
proof -
  let ?cid = "\<lparr>id_ResourceGroup = ''rg1'', id_Workspace = ''ws1'', id_Name = ''counter1''\<rparr>"
  let ?d = "counter1_config\<lparr>Id := counter1_id, attrs := Map.empty\<rparr>"
  have p: "LogAnalyticsDataSourceID (workspace1 JNull) (Id ?d) = Inr ?cid"
    by (simp add: workspace1_def)
  have g: "DataSourcesClient_Get (workspace1 JNull) (counter1_trace JNull)
             (id_ResourceGroup ?cid) (id_Workspace ?cid) (id_Name ?cid) = (counter1 JNull, None)"
    by (simp add: workspace1_def counter1_trace_def)
  have n: "ds_Properties (counter1 JNull) = JNull" "ds_Name (counter1 JNull) = Some ''counter1''"
    by (simp_all add: counter1_def)
  show ?thesis
    using Read_without_properties [OF p g n(1)] by (simp add: n(2))
qed



end
